theory Spec2Isabelle
  imports Complex_Main
begin

section \<open>Python values, dictionaries and errors\<close>

text \<open>
  The client works on JSON-like Python values. Numbers (Python \<open>int\<close> and \<open>float\<close>) are
  modelled by rationals, so that \<open>15 == 15.0\<close> holds as in Python. This abstracts the
  arithmetic of \<open>convert_unit\<close>, which the source computes as \<open>float(...) / factor\<close> in
  IEEE doubles: the rounding of the doubles, and the \<open>OverflowError\<close> of \<open>float()\<close> on an
  integer beyond their range, are not modelled. The properties below are about the branch
  taken, the error raised and what is written where; no property is stated about how
  close a computed number is to the exact one.
  A nested dictionary (such as \<open>baseConvFactor\<close>) is an association list.
\<close>

datatype pyval = PNone | PNum rat | PStr string | PDict "(string \<times> pyval) list"

text \<open>A top-level dictionary (a data point, a data series, keyword arguments).\<close>

type_synonym pydict = "string \<Rightarrow> pyval option"

datatype error =
    NotConvertible pyval   \<comment> \<open>\<open>Exception('unit_id {} is not convertible'.format(u))\<close>\<close>
  | AttributeError         \<comment> \<open>\<open>x.get\<close> on a value that is not a dictionary\<close>
  | TypeError              \<comment> \<open>arithmetic on a value that is not a number\<close>
  | ZeroDivisionError
  | KeyError string        \<comment> \<open>\<open>d[k]\<close> on a missing key\<close>
  | Remote string          \<comment> \<open>anything raised by a call into \<open>lib\<close> (transport, HTTP status)\<close>

definition bind_err :: "error + 'a \<Rightarrow> ('a \<Rightarrow> error + 'b) \<Rightarrow> error + 'b" where
  "bind_err m f = (case m of Inl e \<Rightarrow> Inl e | Inr x \<Rightarrow> f x)"

text \<open>\<open>d.get(k)\<close> on a top-level dictionary: \<open>None\<close> when the key is missing.\<close>

definition py_get :: "pydict \<Rightarrow> string \<Rightarrow> pyval" where
  "py_get d k = (case d k of None \<Rightarrow> PNone | Some v \<Rightarrow> v)"

text \<open>\<open>x.get(k, dflt)\<close> on a value: only a dictionary has the method.\<close>

fun val_get_default :: "pyval \<Rightarrow> string \<Rightarrow> pyval \<Rightarrow> error + pyval" where
  "val_get_default (PDict kvs) k dflt =
     Inr (case map_of kvs k of None \<Rightarrow> dflt | Some v \<Rightarrow> v)"
| "val_get_default _ k dflt = Inl AttributeError"

definition val_get :: "pyval \<Rightarrow> string \<Rightarrow> error + pyval" where
  "val_get x k = val_get_default x k PNone"

text \<open>Python truthiness, as tested by \<open>if x\<close> and \<open>not x\<close>.\<close>

fun truthy :: "pyval \<Rightarrow> bool" where
  "truthy PNone = False"
| "truthy (PNum r) = (r \<noteq> 0)"
| "truthy (PStr s) = (s \<noteq> [])"
| "truthy (PDict kvs) = (kvs \<noteq> [])"

text \<open>
  Arithmetic, exact on rationals (see above for what that leaves out). Every operand
  combination other than number with number ends in a \<open>TypeError\<close> somewhere in the
  expression of \<open>convert_unit\<close>, so it is raised at once.
\<close>

fun py_mul :: "pyval \<Rightarrow> pyval \<Rightarrow> error + pyval" where
  "py_mul (PNum a) (PNum b) = Inr (PNum (a * b))"
| "py_mul _ _ = Inl TypeError"

fun py_add :: "pyval \<Rightarrow> pyval \<Rightarrow> error + pyval" where
  "py_add (PNum a) (PNum b) = Inr (PNum (a + b))"
| "py_add _ _ = Inl TypeError"

fun py_sub :: "pyval \<Rightarrow> pyval \<Rightarrow> error + pyval" where
  "py_sub (PNum a) (PNum b) = Inr (PNum (a - b))"
| "py_sub _ _ = Inl TypeError"

fun py_float :: "pyval \<Rightarrow> error + pyval" where
  "py_float (PNum a) = Inr (PNum a)"
| "py_float _ = Inl TypeError"

fun py_truediv :: "pyval \<Rightarrow> pyval \<Rightarrow> error + pyval" where
  "py_truediv (PNum a) (PNum b) = (if b = 0 then Inl ZeroDivisionError else Inr (PNum (a / b)))"
| "py_truediv _ _ = Inl TypeError"

section \<open>\<open>GroClient.convert_unit\<close>\<close>

text \<open>
  \<open>self.lookup('units', u)\<close> is a remote call; it is a parameter \<open>lookup_units\<close> giving
  the entity returned for a unit id, or the error raised.

  \<open>conv_factor\<close> is the block
  \<^verbatim>\<open>
    f = self.lookup('units', u).get('baseConvFactor')
    if not f.get('factor'):
        raise Exception('unit_id {} is not convertible'.format(u))
  \<close>
  which the source runs first for the point's unit and then for the target unit.
\<close>

definition conv_factor :: "(pyval \<Rightarrow> error + pyval) \<Rightarrow> pyval \<Rightarrow> error + pyval" where
  "conv_factor lookup_units u =
     bind_err (lookup_units u) (\<lambda>entity.
     bind_err (val_get entity ''baseConvFactor'') (\<lambda>f.
     bind_err (val_get f ''factor'') (\<lambda>factor.
       if \<not> truthy factor then Inl (NotConvertible u) else Inr f)))"

text \<open>
  \<^verbatim>\<open>
    value_in_base_unit = (point['value'] * from.get('factor')) + from.get('offset', 0)
    point['value'] = float(value_in_base_unit - to.get('offset', 0)) / to.get('factor')
  \<close>
\<close>

definition convert_value :: "pyval \<Rightarrow> pyval \<Rightarrow> pyval \<Rightarrow> error + pyval" where
  "convert_value v from_convert_factor to_convert_factor =
     bind_err (val_get from_convert_factor ''factor'') (\<lambda>ff.
     bind_err (py_mul v ff) (\<lambda>scaled.
     bind_err (val_get_default from_convert_factor ''offset'' (PNum 0)) (\<lambda>fo.
     bind_err (py_add scaled fo) (\<lambda>value_in_base_unit.
     bind_err (val_get_default to_convert_factor ''offset'' (PNum 0)) (\<lambda>to_off.
     bind_err (py_sub value_in_base_unit to_off) (\<lambda>d.
     bind_err (py_float d) (\<lambda>fl.
     bind_err (val_get to_convert_factor ''factor'') (\<lambda>tf.
       py_truediv fl tf))))))))"

text \<open>
  The body of \<open>convert_unit\<close> on the contents of the point: the result is what the
  dictionary holds when the method returns (the dictionary itself when it is returned
  as it is).
\<close>

definition convert_unit_dict ::
  "(pyval \<Rightarrow> error + pyval) \<Rightarrow> pydict \<Rightarrow> pyval \<Rightarrow> error + pydict" where
  "convert_unit_dict lookup_units point target_unit_id =
     (if py_get point ''unit_id'' = PNone \<or> py_get point ''unit_id'' = target_unit_id
      then Inr point
      else
        bind_err (conv_factor lookup_units (py_get point ''unit_id'')) (\<lambda>from_convert_factor.
        bind_err (conv_factor lookup_units target_unit_id) (\<lambda>to_convert_factor.
          if py_get point ''value'' \<noteq> PNone then
            bind_err (convert_value (py_get point ''value'')
                        from_convert_factor to_convert_factor) (\<lambda>v.
              Inr (point(''value'' \<mapsto> v, ''unit_id'' \<mapsto> target_unit_id)))
          else Inr (point(''unit_id'' \<mapsto> target_unit_id)))))"

text \<open>
  The point is a mutable dictionary passed by reference: the assignments
  \<open>point['value'] = ...\<close> and \<open>point['unit_id'] = ...\<close> write into the caller's object
  and \<open>return point\<close> returns the same reference. The store maps references to
  dictionaries. Every \<open>raise\<close> happens before the first assignment, so a failing call
  leaves the store as it was.
\<close>

type_synonym ref = nat
type_synonym store = "ref \<Rightarrow> pydict"

definition convert_unit ::
  "(pyval \<Rightarrow> error + pyval) \<Rightarrow> ref \<Rightarrow> pyval \<Rightarrow> store \<Rightarrow> (error + ref) \<times> store" where
  "convert_unit lookup_units point target_unit_id h =
     (case convert_unit_dict lookup_units (h point) target_unit_id of
        Inl e \<Rightarrow> (Inl e, h)
      | Inr point' \<Rightarrow> (Inr point, h(point := point')))"

section \<open>\<open>GroClient.get_data_points\<close>\<close>

text \<open>
  \<^verbatim>\<open>
    data_points = lib.get_data_points(self.access_token, self.api_host, **selections)
    if 'unit_id' in selections:
        return list(map(functools.partial(self.convert_unit,
                                          target_unit_id=selections['unit_id']), data_points))
    return data_points
  \<close>
  The call into \<open>lib\<close> is a parameter: \<open>fetched\<close> is what it returned (references to the
  retrieved points, which the store holds) or the error it raised. \<open>convert_all\<close> is the
  \<open>list(map(...))\<close>: the points are converted from left to right, and the first exception
  ends the call, with the points converted so far already written.
\<close>

fun convert_all ::
  "(pyval \<Rightarrow> error + pyval) \<Rightarrow> pyval \<Rightarrow> ref list \<Rightarrow> store \<Rightarrow> (error + ref list) \<times> store" where
  "convert_all lookup_units target [] h = (Inr [], h)"
| "convert_all lookup_units target (point # points) h =
     (case convert_unit lookup_units point target h of
        (Inl e, h') \<Rightarrow> (Inl e, h')
      | (Inr q, h') \<Rightarrow>
          (case convert_all lookup_units target points h' of
             (Inl e, h'') \<Rightarrow> (Inl e, h'')
           | (Inr qs, h'') \<Rightarrow> (Inr (q # qs), h'')))"

definition get_data_points ::
  "(pyval \<Rightarrow> error + pyval) \<Rightarrow> (error + ref list) \<Rightarrow> pydict \<Rightarrow> store
     \<Rightarrow> (error + ref list) \<times> store" where
  "get_data_points lookup_units fetched selections h =
     (case fetched of
        Inl e \<Rightarrow> (Inl e, h)
      | Inr data_points \<Rightarrow>
          (case selections ''unit_id'' of
             Some target \<Rightarrow> convert_all lookup_units target data_points h
           | None \<Rightarrow> (Inr data_points, h)))"

section \<open>\<open>GroClient.find_data_series\<close>\<close>

text \<open>
  The method calls three collaborators: \<open>self.search\<close>, \<open>self.get_data_series\<close> and
  \<open>self.rank_series_by_source\<close>, all of them thin wrappers of remote calls in \<open>lib\<close>.
  They are the fields of a \<open>client\<close>, each giving the value returned or the error raised,
  next to the constant \<open>cfg.MAX_RESULT_COMBINATION_DEPTH\<close>. Every call made is appended
  to a trace, in the order of the calls. The method is a generator: the trace and the
  result are those of a consumer that reads it to the end.
\<close>

datatype call =
    Search string pyval
  | GetDataSeries "(string \<times> pyval) list"
  | RankSeriesBySource "pydict list"

record client =
  search :: "string \<Rightarrow> pyval \<Rightarrow> error + pydict list"
  get_data_series :: "(string \<times> pyval) list \<Rightarrow> error + pydict list"
  rank_series_by_source :: "pydict list \<Rightarrow> error + pydict list"
  MAX_RESULT_COMBINATION_DEPTH :: int

text \<open>The slice \<open>xs[:k]\<close>: a negative \<open>k\<close> counts from the end.\<close>

definition py_slice_to :: "int \<Rightarrow> 'a list \<Rightarrow> 'a list" where
  "py_slice_to k xs =
     (if k < 0 then take (nat (int (length xs) + k)) xs else take (nat k) xs)"

text \<open>
  The four blocks
  \<^verbatim>\<open>
    if kwargs.get('item'):
        search_results.append(
            self.search('items', kwargs['item'])[:cfg.MAX_RESULT_COMBINATION_DEPTH])
        keys.append('item_id')
  \<close>
  differ in the keyword, the entity type and the key only; \<open>roles\<close> lists them in the
  order of the source, and \<open>search_roles\<close> runs them in that order.
\<close>

definition roles :: "(string \<times> string \<times> string) list" where
  "roles = [(''item'', ''items'', ''item_id''),
            (''metric'', ''metrics'', ''metric_id''),
            (''region'', ''regions'', ''region_id''),
            (''partner_region'', ''regions'', ''partner_region_id'')]"

fun search_roles ::
  "client \<Rightarrow> pydict \<Rightarrow> (string \<times> string \<times> string) list \<Rightarrow> call list
     \<Rightarrow> (error + (pydict list list \<times> string list)) \<times> call list" where
  "search_roles c kwargs [] trace = (Inr ([], []), trace)"
| "search_roles c kwargs ((role, entity_type, key) # rest) trace =
     (if truthy (py_get kwargs role) then
        (case search c entity_type (py_get kwargs role) of
           Inl e \<Rightarrow> (Inl e, trace @ [Search entity_type (py_get kwargs role)])
         | Inr found \<Rightarrow>
             (case search_roles c kwargs rest (trace @ [Search entity_type (py_get kwargs role)]) of
                (Inl e, trace') \<Rightarrow> (Inl e, trace')
              | (Inr (search_results, keys), trace') \<Rightarrow>
                  (Inr (py_slice_to (MAX_RESULT_COMBINATION_DEPTH c) found # search_results,
                        key # keys), trace')))
      else search_roles c kwargs rest trace)"

text \<open>
  \<open>itertools.product(*pools)\<close>, as the Python documentation defines it:
  \<^verbatim>\<open>
    result = [[]]
    for pool in pools:
        result = [x+[y] for x in result for y in pool]
  \<close>
\<close>

definition itertools_product :: "'a list list \<Rightarrow> 'a list list" where
  "itertools_product pools =
     foldl (\<lambda>result pool. concat (map (\<lambda>x. map (\<lambda>y. x @ [y]) pool) result)) [[]] pools"

text \<open>\<open>[entity['id'] for entity in comb]\<close>: a \<open>KeyError\<close> where an entity has no id.\<close>

fun entity_ids :: "pydict list \<Rightarrow> error + pyval list" where
  "entity_ids [] = Inr []"
| "entity_ids (entity # comb) =
     (case entity ''id'' of
        None \<Rightarrow> Inl (KeyError ''id'')
      | Some i \<Rightarrow> bind_err (entity_ids comb) (\<lambda>ids. Inr (i # ids)))"

text \<open>
  \<^verbatim>\<open>
    if kwargs.get('start_date'):
        data_series['start_date'] = kwargs['start_date']
    if kwargs.get('end_date'):
        data_series['end_date'] = kwargs['end_date']
  \<close>
\<close>

definition stamp :: "pydict \<Rightarrow> pydict \<Rightarrow> pydict" where
  "stamp kwargs data_series =
     (let ds1 = (if truthy (py_get kwargs ''start_date'')
                 then data_series(''start_date'' \<mapsto> py_get kwargs ''start_date'')
                 else data_series)
      in if truthy (py_get kwargs ''end_date'')
         then ds1(''end_date'' \<mapsto> py_get kwargs ''end_date'')
         else ds1)"

text \<open>
  The loop over the combinations: \<open>entities = dict(zip(keys, ids))\<close>, one call of
  \<open>get_data_series\<close> for each, the series found stamped and added to \<open>all_data_series\<close>.
\<close>

fun collect ::
  "client \<Rightarrow> pydict \<Rightarrow> string list \<Rightarrow> pydict list list \<Rightarrow> call list
     \<Rightarrow> (error + pydict list) \<times> call list" where
  "collect c kwargs keys [] trace = (Inr [], trace)"
| "collect c kwargs keys (comb # combs) trace =
     (case entity_ids comb of
        Inl e \<Rightarrow> (Inl e, trace)
      | Inr ids \<Rightarrow>
          (let entities = zip keys ids in
           case get_data_series c entities of
             Inl e \<Rightarrow> (Inl e, trace @ [GetDataSeries entities])
           | Inr data_series_list \<Rightarrow>
               (case collect c kwargs keys combs (trace @ [GetDataSeries entities]) of
                  (Inl e, trace') \<Rightarrow> (Inl e, trace')
                | (Inr rest, trace') \<Rightarrow>
                    (Inr (map (stamp kwargs) data_series_list @ rest), trace'))))"

definition find_data_series :: "client \<Rightarrow> pydict \<Rightarrow> (error + pydict list) \<times> call list" where
  "find_data_series c kwargs =
     (case search_roles c kwargs roles [] of
        (Inl e, trace) \<Rightarrow> (Inl e, trace)
      | (Inr (search_results, keys), trace) \<Rightarrow>
          (case collect c kwargs keys (itertools_product search_results) trace of
             (Inl e, trace') \<Rightarrow> (Inl e, trace')
           | (Inr all_data_series, trace') \<Rightarrow>
               (rank_series_by_source c all_data_series,
                trace' @ [RankSeriesBySource all_data_series])))"

section \<open>\<open>lib.rank_series_by_source\<close> and \<open>lib.get_descendant_regions\<close>\<close>

text \<open>
  Modelled from the spec: \<open>lib.rank_series_by_source\<close>, which \<open>GroClient\<close> only wraps and
  whose module is not among the sources (its test is). After section 4.3: the selections are
  processed in the given order; \<open>source_id\<close> and \<open>source_name\<close> of a selection are ignored
  for the ranking call and do not appear in the output; every source id returned by the
  ranking endpoint gives one descriptor, the selection with \<open>source_id\<close> set to it, in the
  returned order. The ranking endpoint is the parameter \<open>rank_sources\<close>.
\<close>

definition strip_source :: "pydict \<Rightarrow> pydict" where
  "strip_source selection = selection(''source_id'' := None, ''source_name'' := None)"

fun lib_rank_series_by_source ::
  "(pydict \<Rightarrow> error + pyval list) \<Rightarrow> pydict list \<Rightarrow> error + pydict list" where
  "lib_rank_series_by_source rank_sources [] = Inr []"
| "lib_rank_series_by_source rank_sources (selection # selections) =
     bind_err (rank_sources (strip_source selection)) (\<lambda>source_ids.
     bind_err (lib_rank_series_by_source rank_sources selections) (\<lambda>rest.
       Inr (map (\<lambda>source_id. (strip_source selection)(''source_id'' \<mapsto> source_id)) source_ids
            @ rest)))"

text \<open>
  Modelled from the spec: \<open>lib.get_descendant_regions\<close>, which \<open>GroClient\<close> only wraps and
  whose module is not among the sources (its test is). The entity is the one of section 3;
  the directory gives the descendant ids of a region (for the requested level, if any) and
  the batch lookup. After section 4.1: the ids come from the directory, in its order; the
  details are looked up, in one batch, when they are asked for or when historical regions
  are to be dropped; with \<open>include_historical\<close> false the descendants whose flag is set are
  dropped; with \<open>include_details\<close> false a descendant is its id only. An id that does not
  resolve is a \<open>NotFound\<close> error.
\<close>

record entity =
  id' :: int
  name :: string
  contains :: "int list"
  belongsTo :: "int list"
  historical :: bool
  level :: "int option"

datatype descendant = Details entity | IdOnly int

datatype dir_error = NotFound int

record entity_directory =
  list_descendants :: "int \<Rightarrow> int option \<Rightarrow> dir_error + int list"
  lookup_batch :: "int list \<Rightarrow> dir_error + (int \<Rightarrow> entity option)"

fun resolve_all :: "(int \<Rightarrow> entity option) \<Rightarrow> int list \<Rightarrow> dir_error + entity list" where
  "resolve_all details [] = Inr []"
| "resolve_all details (i # ids) =
     (case details i of
        None \<Rightarrow> Inl (NotFound i)
      | Some e \<Rightarrow>
          (case resolve_all details ids of Inl err \<Rightarrow> Inl err | Inr es \<Rightarrow> Inr (e # es)))"

definition get_descendant_regions ::
  "entity_directory \<Rightarrow> int \<Rightarrow> int option \<Rightarrow> bool \<Rightarrow> bool \<Rightarrow> dir_error + descendant list" where
  "get_descendant_regions d region_id descendant_level include_historical include_details =
     (case list_descendants d region_id descendant_level of
        Inl err \<Rightarrow> Inl err
      | Inr ids \<Rightarrow>
          if include_details \<or> \<not> include_historical then
            (case lookup_batch d ids of
               Inl err \<Rightarrow> Inl err
             | Inr details \<Rightarrow>
                 (case resolve_all details ids of
                    Inl err \<Rightarrow> Inl err
                  | Inr resolved \<Rightarrow>
                      (let kept = (if include_historical then resolved
                                   else filter (\<lambda>e. \<not> historical e) resolved)
                       in Inr (if include_details then map Details kept
                               else map (\<lambda>e. IdOnly (id' e)) kept))))
          else Inr (map IdOnly ids))"

section \<open>Vocabulary of the properties\<close>

text \<open>
  What the unit directory holds for a unit. \<open>factor_missing\<close>: the unit resolves, but its
  entity has no \<open>baseConvFactor\<close> (the key is absent or null). \<open>factor_falsy\<close>: the
  \<open>baseConvFactor\<close> is there, but its \<open>factor\<close> is absent, null or zero.
\<close>

definition factor_missing :: "(pyval \<Rightarrow> error + pyval) \<Rightarrow> pyval \<Rightarrow> bool" where
  "factor_missing lookup_units u =
     (case lookup_units u of
        Inl e \<Rightarrow> False
      | Inr entity \<Rightarrow> val_get entity ''baseConvFactor'' = Inr PNone)"

definition factor_falsy :: "(pyval \<Rightarrow> error + pyval) \<Rightarrow> pyval \<Rightarrow> bool" where
  "factor_falsy lookup_units u =
     (case lookup_units u of
        Inl e \<Rightarrow> False
      | Inr entity \<Rightarrow>
          (case val_get entity ''baseConvFactor'' of
             Inr (PDict f) \<Rightarrow>
               (case map_of f ''factor'' of None \<Rightarrow> True | Some x \<Rightarrow> \<not> truthy x)
           | _ \<Rightarrow> False))"

text \<open>
  During \<open>convert_all\<close> every point of the store is either as it was in the store \<open>h0\<close>
  the call started from, or holds the conversion of what it held there.
\<close>

definition touched :: "(pyval \<Rightarrow> error + pyval) \<Rightarrow> pyval \<Rightarrow> store \<Rightarrow> store \<Rightarrow> bool" where
  "touched lk t h0 h = (\<forall>q. h q = h0 q \<or> convert_unit_dict lk (h0 q) t = Inr (h q))"

text \<open>
  The roles given in the keyword arguments, the candidates kept for a role (the search
  result cut to the depth), the selection made of a combination, and the selections and
  searches found in a trace.
\<close>

definition present_roles :: "pydict \<Rightarrow> (string \<times> string \<times> string) list" where
  "present_roles kwargs = filter (\<lambda>(role, entity_type, key). truthy (py_get kwargs role)) roles"

definition candidates :: "client \<Rightarrow> pydict \<Rightarrow> string \<times> string \<times> string \<Rightarrow> pydict list" where
  "candidates c kwargs r =
     (case r of (role, entity_type, key) \<Rightarrow>
        (case search c entity_type (py_get kwargs role) of
           Inl e \<Rightarrow> []
         | Inr found \<Rightarrow> py_slice_to (MAX_RESULT_COMBINATION_DEPTH c) found))"

definition selection_of :: "string list \<Rightarrow> pydict list \<Rightarrow> (string \<times> pyval) list" where
  "selection_of keys comb = zip keys (map (\<lambda>entity. py_get entity ''id'') comb)"

fun selections_tried :: "call list \<Rightarrow> (string \<times> pyval) list list" where
  "selections_tried [] = []"
| "selections_tried (GetDataSeries entities # trace) = entities # selections_tried trace"
| "selections_tried (_ # trace) = selections_tried trace"

fun searches_made :: "call list \<Rightarrow> (string \<times> pyval) list" where
  "searches_made [] = []"
| "searches_made (Search entity_type term # trace) = (entity_type, term) # searches_made trace"
| "searches_made (_ # trace) = searches_made trace"

text \<open>
  The order the specification describes, to compare with: the Cartesian product with the
  first pool varying fastest.
\<close>

definition product_first_fastest :: "'a list list \<Rightarrow> 'a list list" where
  "product_first_fastest pools =
     foldr (\<lambda>pool result. concat (map (\<lambda>rest. map (\<lambda>x. x # rest) pool) result)) pools [[]]"

section \<open>Fixtures\<close>

text \<open>
  A unit directory with two convertible units (10: factor 1000; 14: factor 5/9, offset 255),
  a unit with factor zero (20), a unit whose \<open>baseConvFactor\<close> has no factor (21), a unit
  with no \<open>baseConvFactor\<close> at all (22); any other id does not resolve.
\<close>

definition units_fixture :: "pyval \<Rightarrow> error + pyval" where
  "units_fixture u =
     (if u = PNum 10 then
        Inr (PDict [(''id'', PNum 10),
                    (''baseConvFactor'', PDict [(''factor'', PNum 1000)])])
      else if u = PNum 14 then
        Inr (PDict [(''id'', PNum 14),
                    (''baseConvFactor'', PDict [(''factor'', PNum (5 / 9)), (''offset'', PNum 255)])])
      else if u = PNum 20 then
        Inr (PDict [(''id'', PNum 20), (''baseConvFactor'', PDict [(''factor'', PNum 0)])])
      else if u = PNum 21 then
        Inr (PDict [(''id'', PNum 21), (''baseConvFactor'', PDict [(''offset'', PNum 1)])])
      else if u = PNum 22 then
        Inr (PDict [(''id'', PNum 22), (''name'', PStr ''index'')])
      else Inl (Remote ''404''))"

definition point_fixture :: "pyval \<Rightarrow> pyval \<Rightarrow> pydict" where
  "point_fixture v u =
     [''start_date'' \<mapsto> PStr ''2017-01-01'', ''value'' \<mapsto> v, ''unit_id'' \<mapsto> u]"

definition store_fixture :: "pyval \<Rightarrow> pyval \<Rightarrow> store" where
  "store_fixture v u = (\<lambda>r. if r = 0 then point_fixture v u else Map.empty)"

text \<open>Two retrieved points: value 3 in unit 10 at reference 0, a null value in unit 14 at 1.\<close>

definition points_fixture :: store where
  "points_fixture =
     (\<lambda>r. if r = 0 then point_fixture (PNum 3) (PNum 10)
          else if r = 1 then point_fixture PNone (PNum 14)
          else Map.empty)"

text \<open>
  A client whose search finds two items, three metrics and five regions, with depth 3;
  the empty selection has one data series, every other selection none; the ranking
  returns what it is given.
\<close>

definition series_fixture :: "rat \<Rightarrow> rat \<Rightarrow> pydict" where
  "series_fixture i m = [''item_id'' \<mapsto> PNum i, ''metric_id'' \<mapsto> PNum m, ''source_id'' \<mapsto> PNum 2]"

definition client_fixture :: client where
  "client_fixture =
     \<lparr> search = (\<lambda>entity_type term.
          if entity_type = ''items'' then Inr [[''id'' \<mapsto> PNum 1], [''id'' \<mapsto> PNum 2]]
          else if entity_type = ''metrics''
            then Inr [[''id'' \<mapsto> PNum 10], [''id'' \<mapsto> PNum 20], [''id'' \<mapsto> PNum 30]]
          else Inr [[''id'' \<mapsto> PNum 100], [''id'' \<mapsto> PNum 200], [''id'' \<mapsto> PNum 300],
                    [''id'' \<mapsto> PNum 400], [''id'' \<mapsto> PNum 500]]),
       get_data_series = (\<lambda>entities.
          if entities = [] then Inr [series_fixture 7 8] else Inr []),
       rank_series_by_source = (\<lambda>series. Inr series),
       MAX_RESULT_COMBINATION_DEPTH = 3 \<rparr>"

text \<open>
  The ranking of the specification's example: the selection of item 3457 ranks to the
  sources 11, 22, 33, any other to 44, 55. The first selection carries a \<open>source_id\<close> and
  a \<open>source_name\<close>, as in the test of the repository.
\<close>

definition ranking_fixture :: "pydict \<Rightarrow> error + pyval list" where
  "ranking_fixture selection =
     (if selection ''item_id'' = Some (PNum 3457)
      then Inr [PNum 11, PNum 22, PNum 33]
      else Inr [PNum 44, PNum 55])"

definition selection_fixture_a :: pydict where
  "selection_fixture_a =
     [''region_id'' \<mapsto> PNum 13474, ''item_id'' \<mapsto> PNum 3457, ''metric_id'' \<mapsto> PNum 2540047,
      ''source_id'' \<mapsto> PNum 123, ''source_name'' \<mapsto> PStr ''dontcare'']"

definition selection_fixture_b :: pydict where
  "selection_fixture_b =
     [''item_id'' \<mapsto> PNum 1457, ''region_id'' \<mapsto> PNum 13474, ''metric_id'' \<mapsto> PNum 2540047]"

text \<open>The regions of the repository's test: region 3 contains 1 (historical) and 2.\<close>

definition regions_fixture :: "int \<Rightarrow> entity option" where
  "regions_fixture i =
     (if i = 1 then Some \<lparr>id' = 1, name = ''region 1'', contains = [], belongsTo = [3],
                          historical = True, level = None\<rparr>
      else if i = 2 then Some \<lparr>id' = 2, name = ''region 2'', contains = [], belongsTo = [3],
                          historical = False, level = None\<rparr>
      else if i = 3 then Some \<lparr>id' = 3, name = ''parent'', contains = [1, 2], belongsTo = [4],
                          historical = False, level = None\<rparr>
      else if i = 4 then Some \<lparr>id' = 4, name = ''ancestor'', contains = [3], belongsTo = [],
                          historical = False, level = None\<rparr>
      else None)"

definition directory_fixture :: entity_directory where
  "directory_fixture =
     \<lparr> list_descendants = (\<lambda>region_id descendant_level.
          if region_id = 3 then Inr [1, 2] else Inl (NotFound region_id)),
       lookup_batch = (\<lambda>ids. Inr regions_fixture) \<rparr>"

section \<open>Properties\<close>

subsection \<open>Basic facts about \<open>convert_unit\<close>\<close>

lemma bind_err_simps [simp]:
  "bind_err (Inl e) f = Inl e" "bind_err (Inr x) f = f x"
  by (simp_all add: bind_err_def)

lemma convert_unit_dict_same:
  "py_get d ''unit_id'' = PNone \<or> py_get d ''unit_id'' = t \<Longrightarrow> convert_unit_dict lk d t = Inr d"
  by (auto simp: convert_unit_dict_def)

lemma conv_factor_falsy:
  "factor_falsy lk u \<Longrightarrow> conv_factor lk u = Inl (NotConvertible u)"
  by (auto simp: factor_falsy_def conv_factor_def val_get_def
      split: sum.splits pyval.splits option.splits)

lemma convert_unit_dict_fail_from:
  "py_get d ''unit_id'' \<noteq> PNone \<Longrightarrow> py_get d ''unit_id'' \<noteq> t \<Longrightarrow>
   conv_factor lk (py_get d ''unit_id'') = Inl e \<Longrightarrow> convert_unit_dict lk d t = Inl e"
  by (simp add: convert_unit_dict_def)

lemma convert_unit_dict_fail_to:
  "py_get d ''unit_id'' \<noteq> PNone \<Longrightarrow> py_get d ''unit_id'' \<noteq> t \<Longrightarrow>
   conv_factor lk (py_get d ''unit_id'') = Inr f \<Longrightarrow>
   conv_factor lk t = Inl e \<Longrightarrow> convert_unit_dict lk d t = Inl e"
  by (simp add: convert_unit_dict_def)

lemma convert_unit_dict_frame:
  "convert_unit_dict lk d t = Inr d' \<Longrightarrow> k \<noteq> ''value'' \<Longrightarrow> k \<noteq> ''unit_id'' \<Longrightarrow> d' k = d k"
  by (auto simp: convert_unit_dict_def bind_err_def split: if_splits sum.splits)

lemma convert_unit_dict_unit:
  "convert_unit_dict lk d t = Inr d' \<Longrightarrow> py_get d ''unit_id'' \<noteq> PNone \<Longrightarrow>
   py_get d' ''unit_id'' = t"
  by (auto simp: convert_unit_dict_def bind_err_def py_get_def split: if_splits sum.splits)

lemma convert_unit_dict_null_value:
  "convert_unit_dict lk d t = Inr d' \<Longrightarrow> py_get d ''value'' = PNone \<Longrightarrow>
   d' ''value'' = d ''value''"
  by (auto simp: convert_unit_dict_def bind_err_def split: if_splits sum.splits)

lemma convert_unit_dict_idem:
  assumes "convert_unit_dict lk d t = Inr d'"
  shows "convert_unit_dict lk d' t = Inr d'"
proof (cases "py_get d ''unit_id'' = PNone \<or> py_get d ''unit_id'' = t")
  case True
  with assms have "d' = d" by (simp add: convert_unit_dict_same)
  with True show ?thesis by (simp add: convert_unit_dict_same)
next
  case False
  with assms have "py_get d' ''unit_id'' = t" by (simp add: convert_unit_dict_unit)
  then show ?thesis by (simp add: convert_unit_dict_same)
qed

lemma touched_step:
  assumes "touched lk t h0 h"
  shows "convert_unit_dict lk (h p) t = convert_unit_dict lk (h0 p) t"
proof -
  from assms have "h p = h0 p \<or> convert_unit_dict lk (h0 p) t = Inr (h p)"
    by (simp add: touched_def)
  then show ?thesis
  proof
    assume "h p = h0 p" then show ?thesis by simp
  next
    assume c: "convert_unit_dict lk (h0 p) t = Inr (h p)"
    from convert_unit_dict_idem [OF c] c show ?thesis by simp
  qed
qed

lemma touched_refl: "touched lk t h h"
  by (simp add: touched_def)

lemma convert_all_inv:
  "touched lk t h0 h \<Longrightarrow>
   (case convert_all lk t ps h of
      (Inl e, h') \<Rightarrow> (\<exists>p \<in> set ps. convert_unit_dict lk (h0 p) t = Inl e)
    | (Inr qs, h') \<Rightarrow>
        qs = ps \<and> (\<forall>p \<in> set ps. convert_unit_dict lk (h0 p) t = Inr (h' p)) \<and>
        (\<forall>q. q \<notin> set ps \<longrightarrow> h' q = h q))"
proof (induction ps arbitrary: h)
  case Nil
  then show ?case by simp
next
  case (Cons p ps)
  note same = touched_step [OF Cons.prems, of p]
  show ?case
  proof (cases "convert_unit_dict lk (h0 p) t")
    case (Inl e)
    with same show ?thesis by (simp add: convert_unit_def)
  next
    case (Inr d')
    let ?h1 = "h(p := d')"
    have step: "convert_unit lk p t h = (Inr p, ?h1)"
      using same Inr by (simp add: convert_unit_def)
    have t1: "touched lk t h0 ?h1"
      using Cons.prems Inr by (simp add: touched_def)
    show ?thesis
    proof (cases "convert_all lk t ps ?h1")
      case (Pair r h')
      note IH = Cons.IH [OF t1, unfolded Pair]
      show ?thesis
      proof (cases r)
        case (Inl e)
        with IH have "\<exists>p \<in> set ps. convert_unit_dict lk (h0 p) t = Inl e" by simp
        with Pair Inl step show ?thesis by simp
      next
        case (Inr qs)
        with IH have qs: "qs = ps"
          and conv: "\<forall>p \<in> set ps. convert_unit_dict lk (h0 p) t = Inr (h' p)"
          and rest: "\<forall>q. q \<notin> set ps \<longrightarrow> h' q = ?h1 q"
          by simp_all
        have "convert_unit_dict lk (h0 p) t = Inr (h' p)"
        proof (cases "p \<in> set ps")
          case True with conv show ?thesis by blast
        next
          case False with rest \<open>convert_unit_dict lk (h0 p) t = Inr d'\<close> show ?thesis by simp
        qed
        moreover have "\<forall>q. q \<notin> set (p # ps) \<longrightarrow> h' q = h q"
          using rest by simp
        ultimately show ?thesis
          using qs conv Pair Inr step by simp
      qed
    qed
  qed
qed

subsection \<open>Basic facts about \<open>find_data_series\<close>\<close>

lemma product_step_single:
  "concat (map (\<lambda>y. map ((@) (a @ [y])) P) pool)
     = map ((@) a) (concat (map (\<lambda>y. map ((#) y) P) pool))"
  by (induction pool) simp_all

lemma map_append_Nil: "map ((@) []) xs = xs"
  by (induction xs) simp_all

lemma product_step:
  "concat (map (\<lambda>a'. map ((@) a') P) (concat (map (\<lambda>x. map (\<lambda>y. x @ [y]) pool) acc)))
     = concat (map (\<lambda>a. map ((@) a) (concat (map (\<lambda>y. map ((#) y) P) pool))) acc)"
  by (induction acc) (simp_all add: product_step_single comp_def)

lemma foldl_product:
  "foldl (\<lambda>result pool. concat (map (\<lambda>x. map (\<lambda>y. x @ [y]) pool) result)) acc pools
     = concat (map (\<lambda>a. map ((@) a) (product_lists pools)) acc)"
proof (induction pools arbitrary: acc)
  case Nil
  show ?case by (induction acc) simp_all
next
  case (Cons pool pools)
  show ?case by (simp add: Cons.IH product_step)
qed

lemma itertools_product_lists: "itertools_product pools = product_lists pools"
  by (simp add: itertools_product_def foldl_product map_append_Nil)

lemma itertools_product_Nil: "itertools_product [] = [[]]"
  by (simp add: itertools_product_lists)

lemma itertools_product_Cons:
  "itertools_product (xs # xss) = concat (map (\<lambda>x. map ((#) x) (itertools_product xss)) xs)"
  by (simp add: itertools_product_lists)



lemma entity_ids_ok:
  "entity_ids comb = Inr ids \<Longrightarrow> ids = map (\<lambda>entity. py_get entity ''id'') comb"
  by (induction comb arbitrary: ids)
     (auto simp: py_get_def bind_err_def split: option.splits sum.splits)

lemma search_roles_ok:
  "search_roles c kwargs rs trace = (Inr (search_results, keys), trace') \<Longrightarrow>
   keys = map (\<lambda>(role, entity_type, key). key)
            (filter (\<lambda>(role, entity_type, key). truthy (py_get kwargs role)) rs) \<and>
   search_results = map (candidates c kwargs)
            (filter (\<lambda>(role, entity_type, key). truthy (py_get kwargs role)) rs) \<and>
   trace' = trace @ map (\<lambda>(role, entity_type, key). Search entity_type (py_get kwargs role))
            (filter (\<lambda>(role, entity_type, key). truthy (py_get kwargs role)) rs)"
proof (induction c kwargs rs trace arbitrary: search_results keys trace' rule: search_roles.induct)
  case (1 c kwargs trace)
  then show ?case by simp
next
  case (2 c kwargs role entity_type key rest trace)
  show ?case
  proof (cases "truthy (py_get kwargs role)")
    case False
    with 2 show ?thesis by simp
  next
    case True
    with "2.prems" obtain found srs ks where
      f: "search c entity_type (py_get kwargs role) = Inr found"
      and r: "search_roles c kwargs rest (trace @ [Search entity_type (py_get kwargs role)])
               = (Inr (srs, ks), trace')"
      and e: "search_results = py_slice_to (MAX_RESULT_COMBINATION_DEPTH c) found # srs"
         "keys = key # ks"
      by (auto split: sum.splits prod.splits)
    from "2.IH"(1) [OF True f r] True f e show ?thesis
      by (simp add: candidates_def)
  qed
qed

lemma collect_ok:
  "collect c kwargs keys combs trace = (Inr all_data_series, trace') \<Longrightarrow>
   trace' = trace @ map (\<lambda>comb. GetDataSeries (selection_of keys comb)) combs"
proof (induction combs arbitrary: trace all_data_series)
  case Nil
  then show ?case by simp
next
  case (Cons comb combs)
  from Cons.prems obtain ids dsl rest where
    i: "entity_ids comb = Inr ids"
    and g: "get_data_series c (zip keys ids) = Inr dsl"
    and r: "collect c kwargs keys combs (trace @ [GetDataSeries (zip keys ids)]) = (Inr rest, trace')"
    by (auto simp: Let_def split: sum.splits prod.splits)
  from Cons.IH [OF r] entity_ids_ok [OF i] show ?case
    by (simp add: selection_of_def)
qed

lemma selections_tried_append:
  "selections_tried (xs @ ys) = selections_tried xs @ selections_tried ys"
  by (induction xs rule: selections_tried.induct) simp_all

lemma searches_made_append:
  "searches_made (xs @ ys) = searches_made xs @ searches_made ys"
  by (induction xs rule: searches_made.induct) simp_all

lemma selections_tried_searches:
  "selections_tried (map (\<lambda>(role, entity_type, key). Search entity_type (f role)) rs) = []"
  by (induction rs) auto

lemma selections_tried_gets:
  "selections_tried (map (\<lambda>comb. GetDataSeries (f comb)) combs) = map f combs"
  by (induction combs) auto

lemma find_data_series_trace:
  assumes "find_data_series c kwargs = (Inr result, trace)"
  shows "\<exists>all_data_series.
      trace =
        map (\<lambda>(role, entity_type, key). Search entity_type (py_get kwargs role))
          (present_roles kwargs)
        @ map (\<lambda>comb. GetDataSeries
                 (selection_of (map (\<lambda>(role, entity_type, key). key) (present_roles kwargs)) comb))
            (itertools_product (map (candidates c kwargs) (present_roles kwargs)))
        @ [RankSeriesBySource all_data_series] \<and>
      rank_series_by_source c all_data_series = Inr result"
proof -
  from assms obtain search_results keys trace0 where
    s: "search_roles c kwargs roles [] = (Inr (search_results, keys), trace0)"
    by (auto simp: find_data_series_def split: sum.splits prod.splits)
  with assms obtain all_data_series trace1 where
    cl: "collect c kwargs keys (itertools_product search_results) trace0
           = (Inr all_data_series, trace1)"
    and rk: "rank_series_by_source c all_data_series = Inr result"
    and tr: "trace = trace1 @ [RankSeriesBySource all_data_series]"
    by (auto simp: find_data_series_def split: sum.splits prod.splits)
  from search_roles_ok [OF s] collect_ok [OF cl] tr rk show ?thesis
    by (simp add: present_roles_def)
qed

lemma selections_tried_run:
  assumes "find_data_series c kwargs = (Inr result, trace)"
  shows "selections_tried trace =
     map (selection_of (map (\<lambda>(role, entity_type, key). key) (present_roles kwargs)))
       (itertools_product (map (candidates c kwargs) (present_roles kwargs)))"
  using find_data_series_trace [OF assms]
  by (auto simp: selections_tried_append selections_tried_searches selections_tried_gets)




lemma fixture_run_item_metric:
  "find_data_series client_fixture [''item'' \<mapsto> PStr ''corn'', ''metric'' \<mapsto> PStr ''price'']
     = (Inr [],
        [Search ''items'' (PStr ''corn''), Search ''metrics'' (PStr ''price''),
         GetDataSeries [(''item_id'', PNum 1), (''metric_id'', PNum 10)],
         GetDataSeries [(''item_id'', PNum 1), (''metric_id'', PNum 20)],
         GetDataSeries [(''item_id'', PNum 1), (''metric_id'', PNum 30)],
         GetDataSeries [(''item_id'', PNum 2), (''metric_id'', PNum 10)],
         GetDataSeries [(''item_id'', PNum 2), (''metric_id'', PNum 20)],
         GetDataSeries [(''item_id'', PNum 2), (''metric_id'', PNum 30)],
         RankSeriesBySource []])"
  by (simp add: find_data_series_def roles_def client_fixture_def py_get_def py_slice_to_def
      itertools_product_def)


lemma fixture_run_empty:
  "find_data_series client_fixture Map.empty
     = (Inr [series_fixture 7 8], [GetDataSeries [], RankSeriesBySource [series_fixture 7 8]])"
  by (simp add: find_data_series_def roles_def client_fixture_def py_get_def py_slice_to_def
      itertools_product_def stamp_def)

subsection \<open>Basic facts about the modelled \<open>lib\<close> functions\<close>

lemma lib_rank_series_by_source_concat:
  "\<forall>s \<in> set selections. rank_sources (strip_source s) = Inr (ranked s) \<Longrightarrow>
   lib_rank_series_by_source rank_sources selections =
     Inr (concat (map (\<lambda>s. map (\<lambda>source_id. (strip_source s)(''source_id'' \<mapsto> source_id))
                            (ranked s)) selections))"
  by (induction selections) simp_all

lemma resolve_all_ok:
  "\<forall>i \<in> set ids. details i \<noteq> None \<Longrightarrow>
   resolve_all details ids = Inr (map (\<lambda>i. the (details i)) ids)"
  by (induction ids) auto

subsection \<open>No role given (C1)\<close>

text \<open>
  C1, as amended. When none of \<open>item\<close>, \<open>metric\<close>, \<open>region\<close>, \<open>partner_region\<close> is given
  (or each is empty), \<open>find_data_series\<close> makes no search, calls \<open>get_data_series\<close>
  exactly once, with the empty selection, and yields the ranking of the series that call
  returned (stamped with the dates given).
\<close>

theorem find_data_series_no_roles:
  assumes "\<not> truthy (py_get kwargs ''item'')" and "\<not> truthy (py_get kwargs ''metric'')"
    and "\<not> truthy (py_get kwargs ''region'')" and "\<not> truthy (py_get kwargs ''partner_region'')"
  shows "find_data_series c kwargs =
           (case get_data_series c [] of
              Inl e \<Rightarrow> (Inl e, [GetDataSeries []])
            | Inr data_series_list \<Rightarrow>
                (rank_series_by_source c (map (stamp kwargs) data_series_list),
                 [GetDataSeries [], RankSeriesBySource (map (stamp kwargs) data_series_list)])) \<and>
         searches_made (snd (find_data_series c kwargs)) = [] \<and>
         selections_tried (snd (find_data_series c kwargs)) = [[]]"
proof -
  have run: "find_data_series c kwargs =
           (case get_data_series c [] of
              Inl e \<Rightarrow> (Inl e, [GetDataSeries []])
            | Inr data_series_list \<Rightarrow>
                (rank_series_by_source c (map (stamp kwargs) data_series_list),
                 [GetDataSeries [], RankSeriesBySource (map (stamp kwargs) data_series_list)]))"
    using assms
    by (simp add: find_data_series_def roles_def itertools_product_def split: sum.splits)
  have "searches_made (snd (find_data_series c kwargs)) = []"
    and "selections_tried (snd (find_data_series c kwargs)) = [[]]"
    by (simp_all add: run split: sum.splits)
  with run show ?thesis by (simp only: simp_thms)
qed

text \<open>The theorem at the fixture client, with no keyword argument at all.\<close>

theorem find_data_series_no_roles_witness:
  "searches_made (snd (find_data_series client_fixture Map.empty)) = [] \<and>
   selections_tried (snd (find_data_series client_fixture Map.empty)) = [[]] \<and>
   fst (find_data_series client_fixture Map.empty) = Inr [stamp Map.empty (series_fixture 7 8)]"
  using find_data_series_no_roles [where c = client_fixture and kwargs = Map.empty]
  by (simp add: py_get_def client_fixture_def)

text \<open>
  C1 as stated fails: a product of no pools has one element, the empty combination, so
  the loop runs once. At the fixture client the call with no role invokes
  \<open>get_data_series\<close> with the empty selection and yields the series it returned.
\<close>

theorem find_data_series_no_roles_counterexample:
  "fst (find_data_series client_fixture Map.empty) = Inr [series_fixture 7 8] \<and>
   snd (find_data_series client_fixture Map.empty)
     = [GetDataSeries [], RankSeriesBySource [series_fixture 7 8]]"
  by (simp add: fixture_run_empty)

subsection \<open>The order of the combinations (C2)\<close>

text \<open>
  C2, as amended. In a run that returns, the selections passed to \<open>get_data_series\<close> are,
  in this order, those of the combinations of \<open>itertools.product\<close> over the candidates of
  the roles given, and that product varies the last role fastest and the first role
  slowest: all combinations with the first candidate of the first role come first, in the
  order of the product of the remaining roles.
\<close>

theorem find_data_series_product_order:
  assumes "find_data_series c kwargs = (Inr result, trace)"
  shows "selections_tried trace =
           map (selection_of (map (\<lambda>(role, entity_type, key). key) (present_roles kwargs)))
             (itertools_product (map (candidates c kwargs) (present_roles kwargs))) \<and>
         itertools_product ([] :: pydict list list) = [[]] \<and>
         (\<forall>(pool :: pydict list) pools.
            itertools_product (pool # pools)
              = concat (map (\<lambda>x. map ((#) x) (itertools_product pools)) pool))"
  using selections_tried_run [OF assms]
  by (simp add: itertools_product_Nil itertools_product_Cons)

text \<open>The theorem at the fixture client, for an item and a metric.\<close>

theorem find_data_series_product_order_witness:
  "selections_tried (snd (find_data_series client_fixture
      [''item'' \<mapsto> PStr ''corn'', ''metric'' \<mapsto> PStr ''price'']))
     = [[(''item_id'', PNum 1), (''metric_id'', PNum 10)],
        [(''item_id'', PNum 1), (''metric_id'', PNum 20)],
        [(''item_id'', PNum 1), (''metric_id'', PNum 30)],
        [(''item_id'', PNum 2), (''metric_id'', PNum 10)],
        [(''item_id'', PNum 2), (''metric_id'', PNum 20)],
        [(''item_id'', PNum 2), (''metric_id'', PNum 30)]] \<and>
   selections_tried (snd (find_data_series client_fixture
      [''item'' \<mapsto> PStr ''corn'', ''metric'' \<mapsto> PStr ''price'']))
     = map (selection_of [''item_id'', ''metric_id''])
         (itertools_product
            [[[''id'' \<mapsto> PNum 1], [''id'' \<mapsto> PNum 2]],
             [[''id'' \<mapsto> PNum 10], [''id'' \<mapsto> PNum 20], [''id'' \<mapsto> PNum 30]]])"
proof -
  have p: "present_roles [''item'' \<mapsto> PStr ''corn'', ''metric'' \<mapsto> PStr ''price'']
     = [(''item'', ''items'', ''item_id''), (''metric'', ''metrics'', ''metric_id'')]"
    by (simp add: present_roles_def roles_def py_get_def)
  have c: "candidates client_fixture [''item'' \<mapsto> PStr ''corn'', ''metric'' \<mapsto> PStr ''price'']
             (''item'', ''items'', ''item_id'') = [[''id'' \<mapsto> PNum 1], [''id'' \<mapsto> PNum 2]]"
    "candidates client_fixture [''item'' \<mapsto> PStr ''corn'', ''metric'' \<mapsto> PStr ''price'']
             (''metric'', ''metrics'', ''metric_id'')
       = [[''id'' \<mapsto> PNum 10], [''id'' \<mapsto> PNum 20], [''id'' \<mapsto> PNum 30]]"
    by (simp_all add: candidates_def client_fixture_def py_get_def py_slice_to_def)
  from find_data_series_product_order [OF fixture_run_item_metric]
  show ?thesis
    by (simp add: fixture_run_item_metric p c)
qed

text \<open>
  C2 as stated fails: with two items and three metrics the second selection tried changes
  the metric (the last role), not the item; the order with the first role varying
  fastest is another one.
\<close>

theorem find_data_series_first_fastest_counterexample:
  "selections_tried (snd (find_data_series client_fixture
      [''item'' \<mapsto> PStr ''corn'', ''metric'' \<mapsto> PStr ''price'']))
     = [[(''item_id'', PNum 1), (''metric_id'', PNum 10)],
        [(''item_id'', PNum 1), (''metric_id'', PNum 20)],
        [(''item_id'', PNum 1), (''metric_id'', PNum 30)],
        [(''item_id'', PNum 2), (''metric_id'', PNum 10)],
        [(''item_id'', PNum 2), (''metric_id'', PNum 20)],
        [(''item_id'', PNum 2), (''metric_id'', PNum 30)]] \<and>
   map (selection_of [''item_id'', ''metric_id''])
     (product_first_fastest
        [[[''id'' \<mapsto> PNum 1], [''id'' \<mapsto> PNum 2]],
         [[''id'' \<mapsto> PNum 10], [''id'' \<mapsto> PNum 20], [''id'' \<mapsto> PNum 30]]])
     = [[(''item_id'', PNum 1), (''metric_id'', PNum 10)],
        [(''item_id'', PNum 2), (''metric_id'', PNum 10)],
        [(''item_id'', PNum 1), (''metric_id'', PNum 20)],
        [(''item_id'', PNum 2), (''metric_id'', PNum 20)],
        [(''item_id'', PNum 1), (''metric_id'', PNum 30)],
        [(''item_id'', PNum 2), (''metric_id'', PNum 30)]]"
  by (simp add: fixture_run_item_metric product_first_fastest_def selection_of_def py_get_def)

subsection \<open>Non-convertible units (C3)\<close>

text \<open>
  The check the source makes. Let the point's \<open>unit_id\<close> be non-null and different from
  the target. If the \<open>baseConvFactor\<close> of the point's unit is present with an absent,
  null or zero \<open>factor\<close>, \<open>convert_unit\<close> raises the error naming the point's unit. If the
  point's unit passes its check and the target's \<open>baseConvFactor\<close> is present with an
  absent, null or zero \<open>factor\<close>, it raises the error naming the target unit. Nothing is
  written in either case.
\<close>

lemma convert_unit_falsy_factor:
  assumes "py_get (h p) ''unit_id'' \<noteq> PNone" and "py_get (h p) ''unit_id'' \<noteq> t"
  shows "(factor_falsy lookup_units (py_get (h p) ''unit_id'') \<longrightarrow>
            convert_unit lookup_units p t h = (Inl (NotConvertible (py_get (h p) ''unit_id'')), h)) \<and>
         ((\<exists>f. conv_factor lookup_units (py_get (h p) ''unit_id'') = Inr f) \<and>
            factor_falsy lookup_units t \<longrightarrow>
            convert_unit lookup_units p t h = (Inl (NotConvertible t), h))"
proof (intro conjI impI)
  assume "factor_falsy lookup_units (py_get (h p) ''unit_id'')"
  then show "convert_unit lookup_units p t h = (Inl (NotConvertible (py_get (h p) ''unit_id'')), h)"
    using assms by (simp add: convert_unit_def convert_unit_dict_fail_from conv_factor_falsy)
next
  assume "(\<exists>f. conv_factor lookup_units (py_get (h p) ''unit_id'') = Inr f) \<and>
            factor_falsy lookup_units t"
  then show "convert_unit lookup_units p t h = (Inl (NotConvertible t), h)"
    using assms
    by (auto simp: convert_unit_def convert_unit_dict_fail_to conv_factor_falsy)
qed

text \<open>
  C3, a defect of the code. The claim asks for the error naming the offending unit whenever
  the conversion factor of the point's unit or of the target unit is missing, or its
  \<open>factor\<close> is absent or zero. Where the unit's entity has no \<open>baseConvFactor\<close> (unit 22
  of the fixture), \<open>.get('baseConvFactor')\<close> gives \<open>None\<close> and \<open>None.get('factor')\<close> raises
  an \<open>AttributeError\<close>, which names no unit: so for a point in unit 22 converted to unit
  10, and for a point in unit 10 converted to unit 22. Where the \<open>baseConvFactor\<close> is
  present without a \<open>factor\<close> (unit 21), the same call raises the error naming the unit.
  In each case the store is left as it was.
\<close>

theorem convert_unit_missing_factor_defect:
  "factor_missing units_fixture (PNum 22) \<and>
   convert_unit units_fixture 0 (PNum 10) (store_fixture (PNum 3) (PNum 22))
     = (Inl AttributeError, store_fixture (PNum 3) (PNum 22)) \<and>
   convert_unit units_fixture 0 (PNum 22) (store_fixture (PNum 3) (PNum 10))
     = (Inl AttributeError, store_fixture (PNum 3) (PNum 10)) \<and>
   factor_falsy units_fixture (PNum 21) \<and>
   convert_unit units_fixture 0 (PNum 10) (store_fixture (PNum 3) (PNum 21))
     = (Inl (NotConvertible (PNum 21)), store_fixture (PNum 3) (PNum 21)) \<and>
   convert_unit units_fixture 0 (PNum 21) (store_fixture (PNum 3) (PNum 10))
     = (Inl (NotConvertible (PNum 21)), store_fixture (PNum 3) (PNum 10))"
  by (simp add: convert_unit_def convert_unit_dict_def conv_factor_def val_get_def
      store_fixture_def point_fixture_def py_get_def units_fixture_def
      factor_missing_def factor_falsy_def)

subsection \<open>What \<open>convert_unit\<close> changes (C4)\<close>

text \<open>
  C4, as amended. \<open>convert_unit\<close> writes into the point it is given and returns that same
  reference. A failing call leaves the store as it was. After a successful call no other
  object of the store has changed, every field of the point other than \<open>value\<close> and
  \<open>unit_id\<close> is as before, the \<open>unit_id\<close> is the target whenever it was non-null before,
  and a null (or absent) \<open>value\<close> stays as it was.
\<close>

theorem convert_unit_frame:
  "(case convert_unit lookup_units p t h of
      (Inl e, h') \<Rightarrow> h' = h
    | (Inr r, h') \<Rightarrow>
        r = p \<and>
        (\<forall>q. q \<noteq> p \<longrightarrow> h' q = h q) \<and>
        (\<forall>k. k \<noteq> ''value'' \<and> k \<noteq> ''unit_id'' \<longrightarrow> h' p k = h p k) \<and>
        (py_get (h p) ''unit_id'' \<noteq> PNone \<longrightarrow> py_get (h' p) ''unit_id'' = t) \<and>
        (py_get (h p) ''value'' = PNone \<longrightarrow> h' p ''value'' = h p ''value''))"
proof (cases "convert_unit_dict lookup_units (h p) t")
  case (Inl e)
  then show ?thesis by (simp add: convert_unit_def)
next
  case (Inr d')
  then show ?thesis
    using convert_unit_dict_frame [OF Inr] convert_unit_dict_unit [OF Inr]
      convert_unit_dict_null_value [OF Inr]
    by (simp add: convert_unit_def)
qed

text \<open>The theorem at a point with a null value in unit 10, converted to unit 14.\<close>

theorem convert_unit_frame_witness:
  "fst (convert_unit units_fixture 0 (PNum 14) (store_fixture PNone (PNum 10))) = Inr 0 \<and>
   snd (convert_unit units_fixture 0 (PNum 14) (store_fixture PNone (PNum 10))) 1
     = store_fixture PNone (PNum 10) 1 \<and>
   snd (convert_unit units_fixture 0 (PNum 14) (store_fixture PNone (PNum 10))) 0 ''start_date''
     = Some (PStr ''2017-01-01'') \<and>
   py_get (snd (convert_unit units_fixture 0 (PNum 14) (store_fixture PNone (PNum 10))) 0)
     ''unit_id'' = PNum 14 \<and>
   snd (convert_unit units_fixture 0 (PNum 14) (store_fixture PNone (PNum 10))) 0 ''value''
     = Some PNone"
proof -
  have ok: "fst (convert_unit units_fixture 0 (PNum 14) (store_fixture PNone (PNum 10))) = Inr 0"
    by (simp add: convert_unit_def convert_unit_dict_def conv_factor_def
        val_get_def store_fixture_def point_fixture_def py_get_def units_fixture_def)
  have pre: "py_get (store_fixture PNone (PNum 10) 0) ''unit_id'' = PNum 10"
    "py_get (store_fixture PNone (PNum 10) 0) ''value'' = PNone"
    "store_fixture PNone (PNum 10) 0 ''value'' = Some PNone"
    "store_fixture PNone (PNum 10) 0 ''start_date'' = Some (PStr ''2017-01-01'')"
    by (simp_all add: store_fixture_def point_fixture_def py_get_def)
  obtain r h' where c: "convert_unit units_fixture 0 (PNum 14) (store_fixture PNone (PNum 10)) = (r, h')"
    by (cases "convert_unit units_fixture 0 (PNum 14) (store_fixture PNone (PNum 10))")
  with ok have r: "r = Inr 0" by simp
  from convert_unit_frame [where lookup_units = units_fixture and p = 0 and t = "PNum 14"
      and h = "store_fixture PNone (PNum 10)"]
  show ?thesis
    unfolding c r using pre by simp
qed

text \<open>
  C4 as stated fails: the call is not free of side effects. The point passed in (value 3,
  unit 10) holds value 4941 and unit 14 in the store after the call.
\<close>

theorem convert_unit_mutates_counterexample:
  "py_get (store_fixture (PNum 3) (PNum 10) 0) ''unit_id'' = PNum 10 \<and>
   py_get (store_fixture (PNum 3) (PNum 10) 0) ''value'' = PNum 3 \<and>
   py_get (snd (convert_unit units_fixture 0 (PNum 14) (store_fixture (PNum 3) (PNum 10))) 0)
     ''unit_id'' = PNum 14 \<and>
   py_get (snd (convert_unit units_fixture 0 (PNum 14) (store_fixture (PNum 3) (PNum 10))) 0)
     ''value'' = PNum 4941"
  by (simp add: convert_unit_def convert_unit_dict_def conv_factor_def convert_value_def
      val_get_def store_fixture_def point_fixture_def py_get_def units_fixture_def)

subsection \<open>Identity (C6)\<close>

text \<open>
  C6. Converting a point to the unit it already has returns the point with the store
  unchanged, whatever its value; and a point whose \<open>unit_id\<close> is null (or absent) is
  returned unchanged for every target unit.
\<close>

theorem convert_unit_identity:
  "convert_unit lookup_units p (py_get (h p) ''unit_id'') h = (Inr p, h) \<and>
   (py_get (h p) ''unit_id'' = PNone \<longrightarrow> (\<forall>t. convert_unit lookup_units p t h = (Inr p, h)))"
  by (simp add: convert_unit_def convert_unit_dict_same)

text \<open>The theorem at a point with a null value in unit 10, and at a point with no unit.\<close>

theorem convert_unit_identity_witness:
  "convert_unit units_fixture 0 (PNum 10) (store_fixture PNone (PNum 10))
     = (Inr 0, store_fixture PNone (PNum 10)) \<and>
   convert_unit units_fixture 0 (PNum 14) (store_fixture (PNum 3) PNone)
     = (Inr 0, store_fixture (PNum 3) PNone)"
  using convert_unit_identity [of units_fixture 0 "store_fixture PNone (PNum 10)"]
    convert_unit_identity [of units_fixture 0 "store_fixture (PNum 3) PNone"]
  by (simp add: store_fixture_def point_fixture_def py_get_def)

subsection \<open>The number of combinations (C7)\<close>



subsection \<open>Ranking by source (C8)\<close>

text \<open>
  C8. When the ranking endpoint answers for every selection, the output is, for the
  selections in their order, one descriptor for each ranked source id in the returned
  order: the selection, without its own source fields, with \<open>source_id\<close> set to that id.
  No output item has a \<open>source_name\<close>, and for a selection without one the item is the
  selection itself with \<open>source_id\<close> set.
\<close>

theorem rank_series_by_source_order:
  assumes "\<forall>s \<in> set selections. rank_sources (strip_source s) = Inr (ranked s)"
  shows "lib_rank_series_by_source rank_sources selections =
           Inr (concat (map (\<lambda>s. map (\<lambda>source_id. (strip_source s)(''source_id'' \<mapsto> source_id))
                                  (ranked s)) selections)) \<and>
         (\<forall>s source_id. ((strip_source s)(''source_id'' \<mapsto> source_id)) ''source_name'' = None) \<and>
         (\<forall>s source_id. s ''source_name'' = None \<longrightarrow>
            (strip_source s)(''source_id'' \<mapsto> source_id) = s(''source_id'' \<mapsto> source_id))"
  using lib_rank_series_by_source_concat [OF assms]
  by (auto simp: strip_source_def fun_eq_iff)

text \<open>
  The theorem at the example: two selections ranking to 11, 22, 33 and to 44, 55 give
  five descriptors in that order.
\<close>

theorem rank_series_by_source_order_witness:
  "lib_rank_series_by_source ranking_fixture [selection_fixture_a, selection_fixture_b] =
     Inr [(strip_source selection_fixture_a)(''source_id'' \<mapsto> PNum 11),
          (strip_source selection_fixture_a)(''source_id'' \<mapsto> PNum 22),
          (strip_source selection_fixture_a)(''source_id'' \<mapsto> PNum 33),
          selection_fixture_b(''source_id'' \<mapsto> PNum 44),
          selection_fixture_b(''source_id'' \<mapsto> PNum 55)] \<and>
   ((strip_source selection_fixture_a)(''source_id'' \<mapsto> PNum 11)) ''source_name'' = None \<and>
   ((strip_source selection_fixture_a)(''source_id'' \<mapsto> PNum 11)) ''item_id'' = Some (PNum 3457)"
proof -
  let ?ranked = "\<lambda>s. if s ''item_id'' = Some (PNum 3457)
                      then [PNum 11, PNum 22, PNum 33] else [PNum 44, PNum 55]"
  have r: "\<forall>s \<in> set [selection_fixture_a, selection_fixture_b].
             ranking_fixture (strip_source s) = Inr (?ranked s)"
    by (simp add: ranking_fixture_def strip_source_def)
  have b: "selection_fixture_b ''source_name'' = None"
    by (simp add: selection_fixture_b_def)
  have i: "selection_fixture_a ''item_id'' = Some (PNum 3457)"
    "selection_fixture_b ''item_id'' = Some (PNum 1457)"
    by (simp_all add: selection_fixture_a_def selection_fixture_b_def)
  note th = rank_series_by_source_order [OF r]
  from th have run:
    "lib_rank_series_by_source ranking_fixture [selection_fixture_a, selection_fixture_b] =
       Inr (concat (map (\<lambda>s. map (\<lambda>source_id. (strip_source s)(''source_id'' \<mapsto> source_id))
                              (?ranked s)) [selection_fixture_a, selection_fixture_b]))"
    by (rule conjunct1)
  from th b have eq:
    "\<And>source_id. (strip_source selection_fixture_b)(''source_id'' \<mapsto> source_id)
        = selection_fixture_b(''source_id'' \<mapsto> source_id)"
    by blast
  from th have nm:
    "((strip_source selection_fixture_a)(''source_id'' \<mapsto> PNum 11)) ''source_name'' = None"
    by blast
  have rhs:
    "concat (map (\<lambda>s. map (\<lambda>source_id. (strip_source s)(''source_id'' \<mapsto> source_id))
                          (?ranked s)) [selection_fixture_a, selection_fixture_b])
       = [(strip_source selection_fixture_a)(''source_id'' \<mapsto> PNum 11),
          (strip_source selection_fixture_a)(''source_id'' \<mapsto> PNum 22),
          (strip_source selection_fixture_a)(''source_id'' \<mapsto> PNum 33),
          selection_fixture_b(''source_id'' \<mapsto> PNum 44),
          selection_fixture_b(''source_id'' \<mapsto> PNum 55)]"
    using i eq by simp
  have it: "((strip_source selection_fixture_a)(''source_id'' \<mapsto> PNum 11)) ''item_id''
      = Some (PNum 3457)"
    using i by (simp add: strip_source_def)
  from run rhs nm it show ?thesis by (simp only: simp_thms)
qed

subsection \<open>Descendant regions (C9)\<close>

text \<open>
  C9. When the directory resolves the region and its descendants: with
  \<open>include_historical\<close> false the descendants whose flag is set are dropped, with details
  or without; with \<open>include_details\<close> false every descendant is its id only.
\<close>

theorem descendant_regions_filter:
  assumes "list_descendants d region_id descendant_level = Inr ids"
    and "lookup_batch d ids = Inr details"
    and "\<forall>i \<in> set ids. details i \<noteq> None"
  shows "get_descendant_regions d region_id descendant_level False True
           = Inr (map Details (filter (\<lambda>e. \<not> historical e) (map (\<lambda>i. the (details i)) ids))) \<and>
         get_descendant_regions d region_id descendant_level False False
           = Inr (map (\<lambda>e. IdOnly (id' e))
                    (filter (\<lambda>e. \<not> historical e) (map (\<lambda>i. the (details i)) ids))) \<and>
         get_descendant_regions d region_id descendant_level True False = Inr (map IdOnly ids) \<and>
         get_descendant_regions d region_id descendant_level True True
           = Inr (map (\<lambda>i. Details (the (details i))) ids)"
  using assms(1,2) resolve_all_ok [OF assms(3)]
  by (simp add: get_descendant_regions_def comp_def)

text \<open>
  The theorem at the regions of the test: region 3 with the historical region 1 and the
  region 2.
\<close>

theorem descendant_regions_filter_witness:
  "get_descendant_regions directory_fixture 3 None False True
     = Inr [Details \<lparr>id' = 2, name = ''region 2'', contains = [], belongsTo = [3],
                     historical = False, level = None\<rparr>] \<and>
   get_descendant_regions directory_fixture 3 None False False = Inr [IdOnly 2] \<and>
   get_descendant_regions directory_fixture 3 None True False = Inr [IdOnly 1, IdOnly 2] \<and>
   get_descendant_regions directory_fixture 3 None True True
     = Inr [Details \<lparr>id' = 1, name = ''region 1'', contains = [], belongsTo = [3],
                     historical = True, level = None\<rparr>,
            Details \<lparr>id' = 2, name = ''region 2'', contains = [], belongsTo = [3],
                     historical = False, level = None\<rparr>]"
proof -
  have l: "list_descendants directory_fixture 3 None = Inr [1, 2]"
    and b: "lookup_batch directory_fixture [1, 2] = Inr regions_fixture"
    by (simp_all add: directory_fixture_def)
  have r: "\<forall>i \<in> set [1, 2]. regions_fixture i \<noteq> None"
    by (simp add: regions_fixture_def)
  from descendant_regions_filter [OF l b r]
  show ?thesis by (simp add: regions_fixture_def)
qed

subsection \<open>Unit conversion in \<open>get_data_points\<close> (C10)\<close>

text \<open>
  C10. Without a \<open>unit_id\<close> key in the selections, the retrieved points are returned as
  they are. With \<open>unit_id\<close> = target: when the call returns, it returns the retrieved
  points in their order, each point holds what \<open>convert_unit\<close> with that target makes of
  its retrieved contents, and nothing else in the store has changed; when it raises, the
  error is the one \<open>convert_unit\<close> raises on one of the retrieved points.
\<close>

theorem get_data_points_converts:
  "(selections ''unit_id'' = None \<longrightarrow>
      get_data_points lookup_units (Inr data_points) selections h = (Inr data_points, h)) \<and>
   (selections ''unit_id'' = Some target \<longrightarrow>
      (case get_data_points lookup_units (Inr data_points) selections h of
         (Inl e, h') \<Rightarrow> (\<exists>p \<in> set data_points. fst (convert_unit lookup_units p target h) = Inl e)
       | (Inr result, h') \<Rightarrow>
           result = data_points \<and>
           (\<forall>p \<in> set data_points.
              convert_unit lookup_units p target h = (Inr p, h(p := h' p))) \<and>
           (\<forall>q. q \<notin> set data_points \<longrightarrow> h' q = h q)))"
proof (intro conjI impI)
  assume "selections ''unit_id'' = None"
  then show "get_data_points lookup_units (Inr data_points) selections h = (Inr data_points, h)"
    by (simp add: get_data_points_def)
next
  assume u: "selections ''unit_id'' = Some target"
  have g: "get_data_points lookup_units (Inr data_points) selections h
      = convert_all lookup_units target data_points h"
    using u by (simp add: get_data_points_def)
  have "\<And>p e. convert_unit_dict lookup_units (h p) target = Inl e \<Longrightarrow>
      fst (convert_unit lookup_units p target h) = Inl e"
    and "\<And>p d. convert_unit_dict lookup_units (h p) target = Inr d \<Longrightarrow>
      convert_unit lookup_units p target h = (Inr p, h(p := d))"
    by (simp_all add: convert_unit_def)
  then show "case get_data_points lookup_units (Inr data_points) selections h of
         (Inl e, h') \<Rightarrow> (\<exists>p \<in> set data_points. fst (convert_unit lookup_units p target h) = Inl e)
       | (Inr result, h') \<Rightarrow>
           result = data_points \<and>
           (\<forall>p \<in> set data_points.
              convert_unit lookup_units p target h = (Inr p, h(p := h' p))) \<and>
           (\<forall>q. q \<notin> set data_points \<longrightarrow> h' q = h q)"
    unfolding g
    using convert_all_inv [OF touched_refl, where lk = lookup_units and t = target
        and ps = data_points and h = h]
    by (fastforce split: sum.splits prod.splits)
qed

text \<open>
  The theorem at the two retrieved points of the fixture: without \<open>unit_id\<close> they come
  back as they are; with \<open>unit_id\<close> 14 the first holds value 4941 in unit 14 and the
  second, already in unit 14, is as it was.
\<close>

theorem get_data_points_converts_witness:
  "get_data_points units_fixture (Inr [0, 1]) Map.empty points_fixture
     = (Inr [0, 1], points_fixture) \<and>
   fst (get_data_points units_fixture (Inr [0, 1]) [''unit_id'' \<mapsto> PNum 14] points_fixture)
     = Inr [0, 1] \<and>
   fst (convert_unit units_fixture 0 (PNum 14) points_fixture) = Inr 0 \<and>
   py_get (snd (get_data_points units_fixture (Inr [0, 1]) [''unit_id'' \<mapsto> PNum 14]
                  points_fixture) 0) ''value'' = PNum 4941 \<and>
   snd (get_data_points units_fixture (Inr [0, 1]) [''unit_id'' \<mapsto> PNum 14] points_fixture) 1
     = points_fixture 1 \<and>
   snd (get_data_points units_fixture (Inr [0, 1]) [''unit_id'' \<mapsto> PNum 14] points_fixture) 2
     = points_fixture 2"
proof -
  let ?sel = "[''unit_id'' \<mapsto> PNum 14]"
  have ev: "fst (get_data_points units_fixture (Inr [0, 1]) ?sel points_fixture) = Inr [0, 1]"
    "py_get (snd (get_data_points units_fixture (Inr [0, 1]) ?sel points_fixture) 0) ''value''
       = PNum 4941"
    "snd (get_data_points units_fixture (Inr [0, 1]) ?sel points_fixture) 1 = points_fixture 1"
    by (simp_all add: get_data_points_def convert_unit_def convert_unit_dict_def conv_factor_def
        convert_value_def val_get_def points_fixture_def point_fixture_def py_get_def
        units_fixture_def)
  obtain r h' where g: "get_data_points units_fixture (Inr [0, 1]) ?sel points_fixture = (r, h')"
    by (cases "get_data_points units_fixture (Inr [0, 1]) ?sel points_fixture")
  with ev(1) have r: "r = Inr [0, 1]" by simp
  from get_data_points_converts [where selections = ?sel and target = "PNum 14"
      and lookup_units = units_fixture and data_points = "[0, 1]" and h = points_fixture]
    get_data_points_converts [where selections = Map.empty
      and lookup_units = units_fixture and data_points = "[0, 1]" and h = points_fixture]
  show ?thesis
    unfolding g r using ev g r by simp
qed

end
